theory Spec2Isabelle
  imports Complex_Main
begin

section \<open>JavaScript values\<close>

text \<open>
  The two serverless functions (\<^verbatim>\<open>api/stocks.js\<close> and \<^verbatim>\<open>api/transcripts.js\<close>) read
  parsed JSON bodies and build the objects they hand to \<^verbatim>\<open>res.json\<close>. Both are modelled
  as values of \<open>jsval\<close>. A number is the value of the double that \<^verbatim>\<open>JSON.parse\<close>
  produced: a real, or one of the two infinities (\<^verbatim>\<open>1e999\<close> parses to \<^verbatim>\<open>Infinity\<close>);
  \<^verbatim>\<open>NaN\<close> never comes out of \<^verbatim>\<open>JSON.parse\<close>, and \<^verbatim>\<open>-0\<close> is identified with \<^verbatim>\<open>0\<close>
  (both are falsy). No arithmetic is done on numbers: they are only tested and copied.
  An object is the list of its own properties in insertion order, with distinct keys as
  \<^verbatim>\<open>JSON.parse\<close> leaves them; a property whose value is \<open>JUndefined\<close> is one that
  \<^verbatim>\<open>JSON.stringify\<close> will leave out.
\<close>

datatype jsnum = Finite real | PosInfinity | NegInfinity

datatype jsval =
    JUndefined
  | JNull
  | JBool bool
  | JNum jsnum
  | JStr string
  | JArr "jsval list"
  | JObj "(string \<times> jsval) list"

text \<open>JavaScript's \<^verbatim>\<open>ToBoolean\<close>: what \<^verbatim>\<open>!x\<close> and \<^verbatim>\<open>x || y\<close> test.\<close>

fun truthy :: "jsval \<Rightarrow> bool" where
  "truthy JUndefined = False"
| "truthy JNull = False"
| "truthy (JBool b) = b"
| "truthy (JNum (Finite x)) = (x \<noteq> 0)"
| "truthy (JNum PosInfinity) = True"
| "truthy (JNum NegInfinity) = True"
| "truthy (JStr s) = (s \<noteq> [])"
| "truthy (JArr xs) = True"
| "truthy (JObj kvs) = True"

text \<open>\<^verbatim>\<open>typeof x === 'number'\<close>.\<close>

fun typeof_number :: "jsval \<Rightarrow> bool" where
  "typeof_number (JNum n) = True"
| "typeof_number v = False"

text \<open>
  Property read \<^verbatim>\<open>v.k\<close> on a value that is neither \<^verbatim>\<open>null\<close> nor \<^verbatim>\<open>undefined\<close> (the
  source guards every read with \<^verbatim>\<open>!data ||\<close>). The property names the source reads
  (\<^verbatim>\<open>price\<close>, \<^verbatim>\<open>transcript\<close>, \<^verbatim>\<open>date\<close>, ...) are not defined on the prototypes of
  strings, numbers, booleans, arrays or objects, so a read that finds no own property
  yields \<^verbatim>\<open>undefined\<close>.
\<close>

fun get_prop :: "jsval \<Rightarrow> string \<Rightarrow> jsval" where
  "get_prop (JObj kvs) k = (case map_of kvs k of None \<Rightarrow> JUndefined | Some v \<Rightarrow> v)"
| "get_prop v k = JUndefined"

text \<open>\<^verbatim>\<open>a || b\<close>.\<close>

definition js_or :: "jsval \<Rightarrow> jsval \<Rightarrow> jsval" where
  "js_or a b = (if truthy a then a else b)"

text \<open>Thrown values: everything the runtime or the source throws is an error object with a message.\<close>

datatype js_error = Error string | TypeError string | SyntaxError string

fun message :: "js_error \<Rightarrow> string" where
  "message (Error m) = m"
| "message (TypeError m) = m"
| "message (SyntaxError m) = m"

text \<open>Decimal rendering of a status code inside a template string.\<close>

definition digit :: "nat \<Rightarrow> char" where
  "digit d = ''0123456789'' ! d"

fun show_nat :: "nat \<Rightarrow> string" where
  "show_nat n = (if n < 10 then [digit n] else show_nat (n div 10) @ [digit (n mod 10)])"

declare show_nat.simps [simp del]

section \<open>Static configuration\<close>

text \<open>The constant \<^verbatim>\<open>COMPANIES\<close>, identical in both files, in the order of its literal.\<close>

definition COMPANIES :: "(string \<times> string) list" where
  "COMPANIES =
     [(''AAPL'', ''Apple Inc.''),
      (''MSFT'', ''Microsoft Corporation''),
      (''GOOGL'', ''Alphabet Inc. (Google)''),
      (''META'', ''Meta Platforms Inc.''),
      (''AMZN'', ''Amazon.com Inc.'')]"

text \<open>\<^verbatim>\<open>Object.keys(COMPANIES)\<close>.\<close>

definition object_keys :: "(string \<times> 'a) list \<Rightarrow> string list" where
  "object_keys kvs = map fst kvs"

text \<open>
  \<^verbatim>\<open>COMPANIES[ticker]\<close>. The clients are only ever called with keys of \<^verbatim>\<open>COMPANIES\<close>, and the
  handler looks up an upper-cased string, which is never the name of a property
  inherited from \<^verbatim>\<open>Object.prototype\<close>.
\<close>

definition company_name :: "string \<Rightarrow> jsval" where
  "company_name tkr = (case map_of COMPANIES tkr of None \<Rightarrow> JUndefined | Some n \<Rightarrow> JStr n)"

section \<open>The upstream provider\<close>

text \<open>
  One call of \<^verbatim>\<open>fetch\<close>: the URL and the options the source passes. The provider is a
  function from the request to what happens: the promise rejects (network error), or a
  response arrives with a status, a status text, and a body that \<^verbatim>\<open>response.json()\<close>
  either parses or rejects.
\<close>

record fetch_request =
  url :: string
  fetch_method :: string
  fetch_headers :: "(string \<times> string) list"

datatype fetch_outcome =
    Rejected js_error
  | Response nat string "js_error + jsval"

type_synonym upstream = "fetch_request \<Rightarrow> fetch_outcome"

text \<open>\<^verbatim>\<open>response.ok\<close>: the status is in the range 200 to 299.\<close>

definition response_ok :: "nat \<Rightarrow> bool" where
  "response_ok st = (200 \<le> st \<and> st \<le> 299)"

definition api_request :: "string \<Rightarrow> string \<Rightarrow> string \<Rightarrow> fetch_request" where
  "api_request endpoint tkr apiKey =
     \<lparr>url = ''https://api.api-ninjas.com/v1/'' @ endpoint @ ''?ticker='' @ tkr,
      fetch_method = ''GET'',
      fetch_headers = [(''X-Api-Key'', apiKey), (''Content-Type'', ''application/json'')]\<rparr>"

section \<open>Results of the clients\<close>

text \<open>
  The object a client returns. Both clients share \<^verbatim>\<open>ticker\<close>, \<^verbatim>\<open>companyName\<close>,
  \<^verbatim>\<open>success\<close> and \<^verbatim>\<open>error\<close>; a property the object literal does not set is
  \<open>JUndefined\<close>.
\<close>

record Result =
  ticker :: string
  companyName :: jsval
  success :: bool
  error :: jsval

record PriceResult = Result +
  price :: jsval

record TranscriptResult = Result +
  date :: jsval
  timestamp :: jsval
  year :: jsval
  quarter :: jsval
  earningsTiming :: jsval
  transcript :: jsval
  participants :: jsval
  transcriptSplit :: jsval

text \<open>
  A client run: what the \<^verbatim>\<open>async\<close> function settles with (\<open>Inl\<close>: the promise rejects)
  and the \<^verbatim>\<open>fetch\<close> calls it issued, in order.
\<close>

type_synonym 'r client = "string \<Rightarrow> string \<Rightarrow> (js_error + 'r) \<times> fetch_request list"

subsection \<open>\<^verbatim>\<open>fetchStockPrice\<close>\<close>

text \<open>The body of the \<^verbatim>\<open>try\<close> block: \<open>Inl\<close> is a value thrown inside it.\<close>

definition fetchStockPrice_try :: "upstream \<Rightarrow> string \<Rightarrow> string \<Rightarrow> js_error + PriceResult" where
  "fetchStockPrice_try up tkr apiKey =
     (case up (api_request ''stockprice'' tkr apiKey) of
        Rejected e \<Rightarrow> Inl e
      | Response st stText bdy \<Rightarrow>
          if \<not> response_ok st then
            Inl (Error (''API request failed for '' @ tkr @ '': '' @ show_nat st @ '' '' @ stText))
          else
            (case bdy of
               Inl e \<Rightarrow> Inl e
             | Inr data \<Rightarrow>
                 if \<not> truthy data \<or> \<not> typeof_number (get_prop data ''price'') then
                   Inl (Error (''Invalid data received for '' @ tkr))
                 else
                   Inr \<lparr>ticker = tkr, companyName = company_name tkr, success = True,
                        error = JUndefined, price = get_prop data ''price''\<rparr>))"

text \<open>The \<^verbatim>\<open>catch\<close> block, for the thrown value \<open>e\<close>.\<close>

definition fetchStockPrice_catch :: "string \<Rightarrow> js_error \<Rightarrow> PriceResult" where
  "fetchStockPrice_catch tkr e =
     \<lparr>ticker = tkr, companyName = company_name tkr, success = False,
      error = JStr (message e), price = JNull\<rparr>"

text \<open>The value the function returns, on either path.\<close>

definition stock_result :: "upstream \<Rightarrow> string \<Rightarrow> string \<Rightarrow> PriceResult" where
  "stock_result up apiKey tkr =
     (case fetchStockPrice_try up tkr apiKey of
        Inr r \<Rightarrow> r
      | Inl e \<Rightarrow> fetchStockPrice_catch tkr e)"

text \<open>
  The function: \<^verbatim>\<open>fetch\<close> is the first statement of the \<^verbatim>\<open>try\<close> block, so each call issues
  exactly one request, and the \<^verbatim>\<open>catch\<close> block turns every thrown value into a returned one.
\<close>

definition fetchStockPrice :: "upstream \<Rightarrow> PriceResult client" where
  "fetchStockPrice up tkr apiKey =
     (Inr (stock_result up apiKey tkr), [api_request ''stockprice'' tkr apiKey])"

subsection \<open>\<^verbatim>\<open>fetchEarningsTranscript\<close>\<close>

definition fetchEarningsTranscript_try ::
  "upstream \<Rightarrow> string \<Rightarrow> string \<Rightarrow> js_error + TranscriptResult" where
  "fetchEarningsTranscript_try up tkr apiKey =
     (case up (api_request ''earningstranscript'' tkr apiKey) of
        Rejected e \<Rightarrow> Inl e
      | Response st stText bdy \<Rightarrow>
          if \<not> response_ok st then
            Inl (Error (''API request failed for '' @ tkr @ '': '' @ show_nat st @ '' '' @ stText))
          else
            (case bdy of
               Inl e \<Rightarrow> Inl e
             | Inr data \<Rightarrow>
                 if \<not> truthy data \<or> \<not> truthy (get_prop data ''transcript'') then
                   Inl (Error (''No transcript data available for '' @ tkr))
                 else
                   Inr \<lparr>ticker = tkr, companyName = company_name tkr, success = True,
                        error = JUndefined,
                        date = get_prop data ''date'',
                        timestamp = get_prop data ''timestamp'',
                        year = get_prop data ''year'',
                        quarter = get_prop data ''quarter'',
                        earningsTiming = get_prop data ''earnings_timing'',
                        transcript = get_prop data ''transcript'',
                        participants = js_or (get_prop data ''participants'') (JArr []),
                        transcriptSplit = js_or (get_prop data ''transcript_split'') (JArr [])\<rparr>))"

definition fetchEarningsTranscript_catch :: "string \<Rightarrow> js_error \<Rightarrow> TranscriptResult" where
  "fetchEarningsTranscript_catch tkr e =
     \<lparr>ticker = tkr, companyName = company_name tkr, success = False,
      error = JStr (message e),
      date = JUndefined, timestamp = JUndefined, year = JUndefined,
      quarter = JUndefined, earningsTiming = JUndefined, transcript = JUndefined,
      participants = JUndefined, transcriptSplit = JUndefined\<rparr>"

definition transcript_result :: "upstream \<Rightarrow> string \<Rightarrow> string \<Rightarrow> TranscriptResult" where
  "transcript_result up apiKey tkr =
     (case fetchEarningsTranscript_try up tkr apiKey of
        Inr r \<Rightarrow> r
      | Inl e \<Rightarrow> fetchEarningsTranscript_catch tkr e)"

definition fetchEarningsTranscript :: "upstream \<Rightarrow> TranscriptResult client" where
  "fetchEarningsTranscript up tkr apiKey =
     (Inr (transcript_result up apiKey tkr), [api_request ''earningstranscript'' tkr apiKey])"

section \<open>Requests and responses of the handlers\<close>

text \<open>
  What a handler reads of \<^verbatim>\<open>req\<close>: the method and \<^verbatim>\<open>req.query.ticker\<close>, which the platform
  delivers as a string, as an array of strings when the parameter is repeated, or not at all.
\<close>

datatype qparam = QAbsent | QString string | QArray "string list"

record req =
  req_method :: string
  query_ticker :: qparam

text \<open>
  What a handler writes to \<^verbatim>\<open>res\<close>: the status, the headers it sets, and the object passed
  to \<^verbatim>\<open>json\<close> (\<open>None\<close> when the response is ended without a body).
\<close>

record response =
  status :: nat
  headers :: "(string \<times> jsval) list"
  body :: "jsval option"

definition cors_headers :: "(string \<times> jsval) list" where
  "cors_headers =
     [(''Access-Control-Allow-Credentials'', JBool True),
      (''Access-Control-Allow-Origin'', JStr ''*''),
      (''Access-Control-Allow-Methods'', JStr ''GET,OPTIONS''),
      (''Access-Control-Allow-Headers'', JStr ''Content-Type'')]"

definition end_response :: "nat \<Rightarrow> response" where
  "end_response st = \<lparr>status = st, headers = cors_headers, body = None\<rparr>"

definition json_response :: "nat \<Rightarrow> jsval \<Rightarrow> response" where
  "json_response st b = \<lparr>status = st, headers = cors_headers, body = Some b\<rparr>"

definition js_nat :: "nat \<Rightarrow> jsval" where
  "js_nat n = JNum (Finite (real n))"

text \<open>The responses both handlers share word for word.\<close>

definition method_not_allowed :: response where
  "method_not_allowed =
     json_response 405
       (JObj [(''error'', JStr ''Method not allowed''),
              (''message'', JStr ''Only GET requests are supported'')])"

definition configuration_error :: response where
  "configuration_error =
     json_response 500
       (JObj [(''error'', JStr ''Server configuration error''),
              (''message'',
               JStr ''API key not configured. Please set API_KEY environment variable.'')])"

text \<open>
  The \<^verbatim>\<open>catch\<close> block of a handler; the two differ in the last words of the message
  (\<^verbatim>\<open>stock data\<close>, \<^verbatim>\<open>transcript data\<close>).
\<close>

definition internal_error :: "string \<Rightarrow> js_error \<Rightarrow> response" where
  "internal_error what e =
     json_response 500
       (JObj [(''error'', JStr ''Internal server error''),
              (''message'', JStr (''An unexpected error occurred while fetching '' @ what)),
              (''details'', JStr (message e))])"

text \<open>
  \<^verbatim>\<open>await Promise.all(promises)\<close>: the results in the order of the promises, or a rejection.
  When several promises reject, JavaScript reports the one that rejects first in time; the
  model reports the first in the list.
\<close>

fun promise_all :: "(js_error + 'a) list \<Rightarrow> js_error + 'a list" where
  "promise_all [] = Inr []"
| "promise_all (Inl e # ps) = Inl e"
| "promise_all (Inr r # ps) =
     (case promise_all ps of Inl e \<Rightarrow> Inl e | Inr rs \<Rightarrow> Inr (r # rs))"

section \<open>The stocks handler\<close>

text \<open>The entries the handler builds from results.\<close>

definition stock_entry :: "PriceResult \<Rightarrow> jsval" where
  "stock_entry r =
     JObj [(''ticker'', JStr (ticker r)), (''companyName'', companyName r), (''price'', price r)]"

definition detail_entry :: "PriceResult \<Rightarrow> jsval" where
  "detail_entry r = JObj [(''ticker'', JStr (ticker r)), (''error'', error r)]"

definition warning_entry :: "PriceResult \<Rightarrow> jsval" where
  "warning_entry r =
     JObj [(''ticker'', JStr (ticker r)), (''companyName'', companyName r),
           (''message'', JStr ''Failed to fetch data'')]"

text \<open>
  From the two \<^verbatim>\<open>filter\<close> calls to the response; \<open>now\<close> is
  \<^verbatim>\<open>new Date().toISOString()\<close>.
\<close>

definition stocks_respond :: "string list \<Rightarrow> PriceResult list \<Rightarrow> string \<Rightarrow> response" where
  "stocks_respond tickers results now =
     (let successfulResults = filter (\<lambda>r. success r) results;
          failedResults = filter (\<lambda>r. \<not> success r) results
      in if length successfulResults = 0 then
           json_response 503
             (JObj [(''error'', JStr ''Service unavailable''),
                    (''message'', JStr ''Unable to fetch stock data from API''),
                    (''details'', JArr (map detail_entry failedResults))])
         else
           let responseData =
                 [(''timestamp'', JStr now),
                  (''stocks'', JArr (map stock_entry successfulResults)),
                  (''metadata'',
                   JObj [(''total'', js_nat (length tickers)),
                         (''successful'', js_nat (length successfulResults)),
                         (''failed'', js_nat (length failedResults))])]
           in json_response 200
                (JObj (if length failedResults > 0
                       then responseData @ [(''warnings'', JArr (map warning_entry failedResults))]
                       else responseData)))"

text \<open>
  The \<^verbatim>\<open>try\<close> block, over the client it calls and the value of \<^verbatim>\<open>process.env.API_KEY\<close>.
  Every client call is started by \<^verbatim>\<open>tickers.map\<close> before the handler awaits, so all their
  \<^verbatim>\<open>fetch\<close> calls are issued, in the order of the tickers.
\<close>

definition stocks_try ::
  "PriceResult client \<Rightarrow> string option \<Rightarrow> string \<Rightarrow> (js_error + response) \<times> fetch_request list" where
  "stocks_try client env_API_KEY now =
     (case env_API_KEY of
        None \<Rightarrow> (Inr configuration_error, [])
      | Some apiKey \<Rightarrow>
          if apiKey = [] then (Inr configuration_error, [])
          else
            let tickers = object_keys COMPANIES;
                stockPromises = map (\<lambda>tkr. client tkr apiKey) tickers;
                calls = concat (map snd stockPromises)
            in (case promise_all (map fst stockPromises) of
                  Inl e \<Rightarrow> (Inl e, calls)
                | Inr results \<Rightarrow> (Inr (stocks_respond tickers results now), calls)))"

definition stocks_handler_with ::
  "PriceResult client \<Rightarrow> req \<Rightarrow> string option \<Rightarrow> string \<Rightarrow> response \<times> fetch_request list" where
  "stocks_handler_with client rq env_API_KEY now =
     (if req_method rq = ''OPTIONS'' then (end_response 200, [])
      else if req_method rq \<noteq> ''GET'' then (method_not_allowed, [])
      else
        (case stocks_try client env_API_KEY now of
           (Inr res, calls) \<Rightarrow> (res, calls)
         | (Inl e, calls) \<Rightarrow> (internal_error ''stock data'' e, calls)))"

text \<open>The handler as deployed: the client is \<^verbatim>\<open>fetchStockPrice\<close>.\<close>

definition stocks_handler ::
  "upstream \<Rightarrow> req \<Rightarrow> string option \<Rightarrow> string \<Rightarrow> response \<times> fetch_request list" where
  "stocks_handler up = stocks_handler_with (fetchStockPrice up)"

section \<open>The transcripts handler\<close>

definition discovery :: response where
  "discovery =
     json_response 200
       (JObj [(''message'', JStr ''Provide a ticker parameter to fetch transcript''),
              (''availableTickers'', JArr (map JStr (object_keys COMPANIES))),
              (''example'', JStr ''/api/transcripts?ticker=MSFT'')])"

definition invalid_ticker :: "string \<Rightarrow> response" where
  "invalid_ticker tkr =
     json_response 400
       (JObj [(''error'', JStr ''Invalid ticker''),
              (''message'', JStr (''Ticker '' @ [CHR 0x27] @ tkr @ [CHR 0x27] @ '' is not supported'')),
              (''availableTickers'', JArr (map JStr (object_keys COMPANIES)))])"

definition transcript_unavailable :: "string \<Rightarrow> TranscriptResult \<Rightarrow> response" where
  "transcript_unavailable upperTicker result =
     json_response 503
       (JObj [(''error'', JStr ''Service unavailable''),
              (''message'', JStr (''Unable to fetch transcript for '' @ upperTicker)),
              (''details'', error result)])"

definition transcript_ok :: "TranscriptResult \<Rightarrow> response" where
  "transcript_ok result =
     json_response 200
       (JObj [(''success'', JBool True),
              (''data'',
               JObj [(''ticker'', JStr (ticker result)),
                     (''companyName'', companyName result),
                     (''date'', date result),
                     (''timestamp'', timestamp result),
                     (''year'', year result),
                     (''quarter'', quarter result),
                     (''earningsTiming'', earningsTiming result),
                     (''transcript'', transcript result),
                     (''participants'', participants result),
                     (''transcriptSplit'', transcriptSplit result)])])"

text \<open>
  The \<^verbatim>\<open>try\<close> block. \<^verbatim>\<open>String.prototype.toUpperCase\<close> is the runtime's: it applies the
  Unicode case mapping, whose table is not part of the repository, so the handler takes the
  function as its first parameter and every theorem below holds for whatever it is. (A string
  is the list of its bytes in UTF-8; apart from \<^verbatim>\<open>toUpperCase\<close> the source only concatenates
  and compares strings.) \<^verbatim>\<open>!ticker\<close> holds for a missing parameter and for the empty string;
  an array is truthy and has no \<^verbatim>\<open>toUpperCase\<close>, so the call throws a \<^verbatim>\<open>TypeError\<close> (the
  message is the one Node.js gives).
\<close>

definition transcripts_try ::
  "(string \<Rightarrow> string) \<Rightarrow> TranscriptResult client \<Rightarrow> req \<Rightarrow> string option \<Rightarrow>
     (js_error + response) \<times> fetch_request list" where
  "transcripts_try toUpperCase client rq env_API_KEY =
     (case env_API_KEY of
        None \<Rightarrow> (Inr configuration_error, [])
      | Some apiKey \<Rightarrow>
          if apiKey = [] then (Inr configuration_error, [])
          else
            (case query_ticker rq of
               QAbsent \<Rightarrow> (Inr discovery, [])
             | QArray ts \<Rightarrow> (Inl (TypeError ''ticker.toUpperCase is not a function''), [])
             | QString tkr \<Rightarrow>
                 if tkr = [] then (Inr discovery, [])
                 else
                   let upperTicker = toUpperCase tkr
                   in if \<not> truthy (company_name upperTicker) then (Inr (invalid_ticker tkr), [])
                      else
                        (case client upperTicker apiKey of
                           (Inl e, calls) \<Rightarrow> (Inl e, calls)
                         | (Inr result, calls) \<Rightarrow>
                             if \<not> success result
                             then (Inr (transcript_unavailable upperTicker result), calls)
                             else (Inr (transcript_ok result), calls))))"

definition transcripts_handler_with ::
  "(string \<Rightarrow> string) \<Rightarrow> TranscriptResult client \<Rightarrow> req \<Rightarrow> string option \<Rightarrow>
     response \<times> fetch_request list" where
  "transcripts_handler_with toUpperCase client rq env_API_KEY =
     (if req_method rq = ''OPTIONS'' then (end_response 200, [])
      else if req_method rq \<noteq> ''GET'' then (method_not_allowed, [])
      else
        (case transcripts_try toUpperCase client rq env_API_KEY of
           (Inr res, calls) \<Rightarrow> (res, calls)
         | (Inl e, calls) \<Rightarrow> (internal_error ''transcript data'' e, calls)))"

text \<open>The handler as deployed: the client is \<^verbatim>\<open>fetchEarningsTranscript\<close>.\<close>

definition transcripts_handler ::
  "(string \<Rightarrow> string) \<Rightarrow> upstream \<Rightarrow> req \<Rightarrow> string option \<Rightarrow>
     response \<times> fetch_request list" where
  "transcripts_handler toUpperCase up =
     transcripts_handler_with toUpperCase (fetchEarningsTranscript up)"

section \<open>Derived notions\<close>

text \<open>
  The results and the upstream requests of one run of the deployed stocks handler, from the
  provider and the key.
\<close>

definition stock_results :: "upstream \<Rightarrow> string \<Rightarrow> PriceResult list" where
  "stock_results up apiKey = map (stock_result up apiKey) (object_keys COMPANIES)"

definition stock_calls :: "string \<Rightarrow> fetch_request list" where
  "stock_calls apiKey = map (\<lambda>tkr. api_request ''stockprice'' tkr apiKey) (object_keys COMPANIES)"

text \<open>Own property test, and the \<^verbatim>\<open>ticker\<close> fields of an array of entries.\<close>

fun has_prop :: "jsval \<Rightarrow> string \<Rightarrow> bool" where
  "has_prop (JObj kvs) k = (k \<in> set (map fst kvs))"
| "has_prop v k = False"

fun entry_tickers :: "jsval \<Rightarrow> jsval list" where
  "entry_tickers (JArr es) = map (\<lambda>e. get_prop e ''ticker'') es"
| "entry_tickers v = []"

text \<open>
  Two providers to run the handlers on: one that answers each ticker differently (a price, a
  429, a network error, a body that does not parse, a price; a transcript for MSFT), and one
  that is down.
\<close>

definition example_upstream :: upstream where
  "example_upstream rq =
     (if url rq = ''https://api.api-ninjas.com/v1/stockprice?ticker=AAPL'' then
        Response 200 ''OK'' (Inr (JObj [(''ticker'', JStr ''AAPL''), (''price'', JNum (Finite 189.5))]))
      else if url rq = ''https://api.api-ninjas.com/v1/stockprice?ticker=MSFT'' then
        Response 429 ''Too Many Requests'' (Inr (JObj [(''error'', JStr ''rate limit'')]))
      else if url rq = ''https://api.api-ninjas.com/v1/stockprice?ticker=GOOGL'' then
        Rejected (TypeError ''fetch failed'')
      else if url rq = ''https://api.api-ninjas.com/v1/stockprice?ticker=META'' then
        Response 200 ''OK'' (Inl (SyntaxError ''Unexpected end of JSON input''))
      else if url rq = ''https://api.api-ninjas.com/v1/stockprice?ticker=AMZN'' then
        Response 200 ''OK'' (Inr (JObj [(''ticker'', JStr ''AMZN''), (''price'', JNum (Finite 178))]))
      else if url rq = ''https://api.api-ninjas.com/v1/earningstranscript?ticker=MSFT'' then
        Response 200 ''OK''
          (Inr (JObj [(''date'', JStr ''2025-10-29''), (''year'', JNum (Finite 2026)),
                      (''quarter'', JNum (Finite 1)), (''transcript'', JStr ''Good afternoon.'')]))
      else Response 404 ''Not Found'' (Inr JNull))"

definition failing_upstream :: upstream where
  "failing_upstream rq = Rejected (TypeError ''fetch failed'')"

definition get_request :: "qparam \<Rightarrow> req" where
  "get_request q = \<lparr>req_method = ''GET'', query_ticker = q\<rparr>"

text \<open>
  \<^verbatim>\<open>!apiKey\<close>: the environment variable is not set, or is the empty string.
\<close>

definition key_absent :: "string option \<Rightarrow> bool" where
  "key_absent env_API_KEY = (case env_API_KEY of None \<Rightarrow> True | Some apiKey \<Rightarrow> apiKey = [])"

text \<open>Further inputs to run the handlers on.\<close>

definition post_request :: req where
  "post_request = \<lparr>req_method = ''POST'', query_ticker = QAbsent\<rparr>"

definition rejecting_client :: "'r client" where
  "rejecting_client tkr apiKey = (Inl (Error ''boom''), [])"

text \<open>
  An instance of \<^verbatim>\<open>toUpperCase\<close> to run the transcripts handler on: the runtime's mapping on
  the ASCII letters and on U+017F, the long s (bytes C5 BF), which upper-cases to \<^verbatim>\<open>S\<close>; every
  other byte is kept. The theorems about the handler hold for every function; only the runs
  at concrete inputs use this one.
\<close>

definition toUpperChar :: "char \<Rightarrow> char" where
  "toUpperChar c =
     (case map_of (zip ''abcdefghijklmnopqrstuvwxyz'' ''ABCDEFGHIJKLMNOPQRSTUVWXYZ'') c of
        None \<Rightarrow> c
      | Some u \<Rightarrow> u)"

fun toUpperCase_sample :: "string \<Rightarrow> string" where
  "toUpperCase_sample [] = []"
| "toUpperCase_sample [c] = [toUpperChar c]"
| "toUpperCase_sample (c # d # cs) =
     (if c = CHR 0xC5 \<and> d = CHR 0xBF then CHR ''S'' # toUpperCase_sample cs
      else toUpperChar c # toUpperCase_sample (d # cs))"

definition empty_transcript_upstream :: upstream where
  "empty_transcript_upstream rq = Response 200 ''OK'' (Inr (JObj [(''transcript'', JStr '''')]))"

section \<open>Facts about the model\<close>

lemma promise_all_Inr: "promise_all (map Inr xs) = Inr xs"
  by (induction xs) simp_all

lemma promise_all_settled: "promise_all (map (\<lambda>x. Inr (f x)) xs) = Inr (map f xs)"
  using promise_all_Inr [of "map f xs"] by (simp add: comp_def)

lemma stocks_try_deployed:
  assumes "apiKey \<noteq> []"
  shows "stocks_try (fetchStockPrice up) (Some apiKey) now =
           (Inr (stocks_respond (object_keys COMPANIES) (stock_results up apiKey) now),
            stock_calls apiKey)"
  using assms
  by (simp add: stocks_try_def Let_def fetchStockPrice_def comp_def promise_all_settled
      stock_results_def stock_calls_def)

lemma stocks_handler_GET:
  assumes "apiKey \<noteq> []" and "req_method rq = ''GET''"
  shows "stocks_handler up rq (Some apiKey) now =
           (stocks_respond (object_keys COMPANIES) (stock_results up apiKey) now,
            stock_calls apiKey)"
  using assms by (simp add: stocks_handler_def stocks_handler_with_def stocks_try_deployed)

lemma stock_result_ticker: "ticker (stock_result up apiKey tkr) = tkr"
  by (simp add: stock_result_def fetchStockPrice_try_def fetchStockPrice_catch_def
      split: sum.splits fetch_outcome.splits if_splits)

lemma stock_result_shape:
  "(success (stock_result up apiKey tkr) \<and> (\<exists>n. price (stock_result up apiKey tkr) = JNum n) \<and>
      error (stock_result up apiKey tkr) = JUndefined) \<or>
   (\<not> success (stock_result up apiKey tkr) \<and> price (stock_result up apiKey tkr) = JNull \<and>
      (\<exists>m. error (stock_result up apiKey tkr) = JStr m))"
proof (cases "fetchStockPrice_try up tkr apiKey")
  case (Inl e)
  then show ?thesis by (simp add: stock_result_def fetchStockPrice_catch_def)
next
  case (Inr r)
  then have "success r \<and> (\<exists>n. price r = JNum n) \<and> error r = JUndefined"
    by (auto simp: fetchStockPrice_try_def split: fetch_outcome.splits sum.splits if_splits
        elim: typeof_number.elims)
  with Inr show ?thesis by (simp add: stock_result_def)
qed

lemma stocks_respond_all_failed:
  assumes "\<forall>r\<in>set results. \<not> success r"
  shows "stocks_respond tickers results now =
           json_response 503
             (JObj [(''error'', JStr ''Service unavailable''),
                    (''message'', JStr ''Unable to fetch stock data from API''),
                    (''details'', JArr (map detail_entry results))])"
proof -
  from assms have "filter (\<lambda>r. success r) results = []" and "filter (\<lambda>r. \<not> success r) results = results"
    by (simp_all add: filter_empty_conv)
  then show ?thesis by (simp add: stocks_respond_def)
qed

lemma stocks_respond_some_succeeded:
  assumes "\<exists>r\<in>set results. success r"
  shows "stocks_respond tickers results now =
           json_response 200
             (JObj ([(''timestamp'', JStr now),
                     (''stocks'', JArr (map stock_entry (filter (\<lambda>r. success r) results))),
                     (''metadata'',
                      JObj [(''total'', js_nat (length tickers)),
                            (''successful'', js_nat (length (filter (\<lambda>r. success r) results))),
                            (''failed'', js_nat (length (filter (\<lambda>r. \<not> success r) results)))])]
                    @ (if \<exists>r\<in>set results. \<not> success r
                       then [(''warnings'', JArr (map warning_entry (filter (\<lambda>r. \<not> success r) results)))]
                       else [])))"
proof -
  from assms have "filter (\<lambda>r. success r) results \<noteq> []"
    by (simp add: filter_empty_conv)
  moreover have "(filter (\<lambda>r. \<not> success r) results \<noteq> []) = (\<exists>r\<in>set results. \<not> success r)"
    by (simp add: filter_empty_conv)
  ultimately show ?thesis by (simp add: stocks_respond_def Let_def)
qed

lemmas eval_defs =
  stock_results_def stock_result_def fetchStockPrice_try_def fetchStockPrice_catch_def
  api_request_def object_keys_def COMPANIES_def response_ok_def company_name_def
  show_nat.simps digit_def stock_calls_def get_request_def

lemma example_stock_results:
  "stock_results example_upstream ''key'' =
     [\<lparr>ticker = ''AAPL'', companyName = JStr ''Apple Inc.'', success = True, error = JUndefined,
       price = JNum (Finite 189.5)\<rparr>,
      \<lparr>ticker = ''MSFT'', companyName = JStr ''Microsoft Corporation'', success = False,
       error = JStr ''API request failed for MSFT: 429 Too Many Requests'', price = JNull\<rparr>,
      \<lparr>ticker = ''GOOGL'', companyName = JStr ''Alphabet Inc. (Google)'', success = False,
       error = JStr ''fetch failed'', price = JNull\<rparr>,
      \<lparr>ticker = ''META'', companyName = JStr ''Meta Platforms Inc.'', success = False,
       error = JStr ''Unexpected end of JSON input'', price = JNull\<rparr>,
      \<lparr>ticker = ''AMZN'', companyName = JStr ''Amazon.com Inc.'', success = True, error = JUndefined,
       price = JNum (Finite 178)\<rparr>]"
  by (simp add: eval_defs example_upstream_def)

lemma failing_stock_results:
  "stock_results failing_upstream ''key'' =
     map (\<lambda>(t, n). \<lparr>ticker = t, companyName = JStr n, success = False,
                     error = JStr ''fetch failed'', price = JNull\<rparr>) COMPANIES"
  by (simp add: eval_defs failing_upstream_def)

section \<open>The clients\<close>

text \<open>
  C2. For each of the five tickers and whatever the provider does (a 2xx response with a valid
  body, a non-2xx response, a body that is malformed or does not parse, a network error), a call
  of \<^verbatim>\<open>fetchStockPrice\<close> or of \<^verbatim>\<open>fetchEarningsTranscript\<close> issues one request and settles
  with a result; it does not reject. The result names the ticker and its company and is of
  exactly one of two shapes: \<^verbatim>\<open>success\<close> is true, the payload is there (a number as
  \<^verbatim>\<open>price\<close>, a truthy \<^verbatim>\<open>transcript\<close>) and there is no \<^verbatim>\<open>error\<close>; or \<^verbatim>\<open>success\<close> is false,
  \<^verbatim>\<open>error\<close> is a string and the payload is missing (\<^verbatim>\<open>price\<close> is \<^verbatim>\<open>null\<close>, no
  \<^verbatim>\<open>transcript\<close>).
\<close>

theorem client_returns_exactly_one:
  assumes "tkr \<in> set (object_keys COMPANIES)"
  shows "(\<exists>r. fetchStockPrice up tkr apiKey = (Inr r, [api_request ''stockprice'' tkr apiKey]) \<and>
            ticker r = tkr \<and> (\<exists>n. companyName r = JStr n) \<and>
            (success r \<and> (\<exists>x. price r = JNum x) \<and> error r = JUndefined \<or>
             \<not> success r \<and> price r = JNull \<and> (\<exists>m. error r = JStr m))) \<and>
         (\<exists>r. fetchEarningsTranscript up tkr apiKey =
              (Inr r, [api_request ''earningstranscript'' tkr apiKey]) \<and>
            ticker r = tkr \<and> (\<exists>n. companyName r = JStr n) \<and>
            (success r \<and> truthy (transcript r) \<and> error r = JUndefined \<or>
             \<not> success r \<and> transcript r = JUndefined \<and> (\<exists>m. error r = JStr m)))"
proof -
  from assms have name: "\<exists>n. company_name tkr = JStr n"
    by (auto simp: company_name_def object_keys_def COMPANIES_def)
  have transcript_shape:
       "ticker (transcript_result up apiKey tkr) = tkr \<and>
        companyName (transcript_result up apiKey tkr) = company_name tkr \<and>
        (success (transcript_result up apiKey tkr) \<and>
           truthy (transcript (transcript_result up apiKey tkr)) \<and>
           error (transcript_result up apiKey tkr) = JUndefined \<or>
         \<not> success (transcript_result up apiKey tkr) \<and>
           transcript (transcript_result up apiKey tkr) = JUndefined \<and>
           (\<exists>m. error (transcript_result up apiKey tkr) = JStr m))"
    by (auto simp: transcript_result_def fetchEarningsTranscript_try_def
        fetchEarningsTranscript_catch_def split: fetch_outcome.splits sum.splits)
  have "companyName (stock_result up apiKey tkr) = company_name tkr"
    by (simp add: stock_result_def fetchStockPrice_try_def fetchStockPrice_catch_def
        split: sum.splits fetch_outcome.splits if_splits)
  with name transcript_shape show ?thesis
    using stock_result_shape [of up apiKey tkr]
    by (simp add: fetchStockPrice_def fetchEarningsTranscript_def stock_result_ticker)
qed

text \<open>
  C2 on AAPL: a price from the stock endpoint, a 404 from the transcript endpoint.
\<close>

theorem client_returns_exactly_one_witness:
  "''AAPL'' \<in> set (object_keys COMPANIES) \<and>
   fetchStockPrice example_upstream ''AAPL'' ''key'' =
     (Inr \<lparr>ticker = ''AAPL'', companyName = JStr ''Apple Inc.'', success = True,
           error = JUndefined, price = JNum (Finite 189.5)\<rparr>,
      [api_request ''stockprice'' ''AAPL'' ''key'']) \<and>
   fetchEarningsTranscript example_upstream ''AAPL'' ''key'' =
     (Inr \<lparr>ticker = ''AAPL'', companyName = JStr ''Apple Inc.'', success = False,
           error = JStr ''API request failed for AAPL: 404 Not Found'',
           date = JUndefined, timestamp = JUndefined, year = JUndefined, quarter = JUndefined,
           earningsTiming = JUndefined, transcript = JUndefined, participants = JUndefined,
           transcriptSplit = JUndefined\<rparr>,
      [api_request ''earningstranscript'' ''AAPL'' ''key''])"
proof -
  have supported: "''AAPL'' \<in> set (object_keys COMPANIES)"
    by (simp add: object_keys_def COMPANIES_def)
  from client_returns_exactly_one [OF supported, of example_upstream "''key''"] supported
  show ?thesis
    by (simp add: fetchStockPrice_def fetchEarningsTranscript_def transcript_result_def
        fetchEarningsTranscript_try_def fetchEarningsTranscript_catch_def eval_defs
        example_upstream_def)
qed

section \<open>The stocks handler: decision rule\<close>

text \<open>
  C1. For a GET request with the key configured, and whatever each of the five upstream calls
  does: when no call succeeds the response is a 503 whose \<^verbatim>\<open>details\<close> has one entry
  \<^verbatim>\<open>{ticker, error}\<close> per ticker of \<^verbatim>\<open>COMPANIES\<close>, each with a string as \<^verbatim>\<open>error\<close>; when at
  least one succeeds the response is a 200 whose \<^verbatim>\<open>stocks\<close> are exactly the successful
  results, and it has a \<^verbatim>\<open>warnings\<close> property, listing the failed results, if and only if
  some call failed.
\<close>

theorem stocks_decision_rule:
  assumes "apiKey \<noteq> []" and "req_method rq = ''GET''"
  shows "\<exists>res b. stocks_handler up rq (Some apiKey) now = (res, stock_calls apiKey) \<and>
           body res = Some b \<and>
           (if \<forall>r\<in>set (stock_results up apiKey). \<not> success r
            then status res = 503 \<and>
                 get_prop b ''details'' =
                   JArr (map (\<lambda>tkr. JObj [(''ticker'', JStr tkr),
                                          (''error'', error (stock_result up apiKey tkr))])
                          (object_keys COMPANIES)) \<and>
                 (\<forall>tkr\<in>set (object_keys COMPANIES). \<exists>m. error (stock_result up apiKey tkr) = JStr m)
            else status res = 200 \<and>
                 get_prop b ''stocks'' =
                   JArr (map stock_entry (filter (\<lambda>r. success r) (stock_results up apiKey))) \<and>
                 (has_prop b ''warnings'' = (\<exists>r\<in>set (stock_results up apiKey). \<not> success r)) \<and>
                 (has_prop b ''warnings'' \<longrightarrow>
                    get_prop b ''warnings'' =
                      JArr (map warning_entry
                             (filter (\<lambda>r. \<not> success r) (stock_results up apiKey)))))"
proof (cases "\<forall>r\<in>set (stock_results up apiKey). \<not> success r")
  case True
  have errs: "\<forall>tkr\<in>set (object_keys COMPANIES). \<exists>m. error (stock_result up apiKey tkr) = JStr m"
  proof
    fix tkr assume "tkr \<in> set (object_keys COMPANIES)"
    with True have "\<not> success (stock_result up apiKey tkr)"
      by (simp add: stock_results_def)
    with stock_result_shape [of up apiKey tkr]
    show "\<exists>m. error (stock_result up apiKey tkr) = JStr m" by blast
  qed
  have "map detail_entry (stock_results up apiKey) =
          map (\<lambda>tkr. JObj [(''ticker'', JStr tkr), (''error'', error (stock_result up apiKey tkr))])
            (object_keys COMPANIES)"
    by (simp add: stock_results_def detail_entry_def stock_result_ticker comp_def)
  with True errs show ?thesis
    by (simp add: stocks_handler_GET [OF assms] stocks_respond_all_failed json_response_def)
next
  case False
  then have some: "\<exists>r\<in>set (stock_results up apiKey). success r" by blast
  with False show ?thesis
    by (simp add: stocks_handler_GET [OF assms] stocks_respond_some_succeeded json_response_def)
qed

theorem stocks_decision_rule_witness:
  "(\<exists>res b. stocks_handler example_upstream (get_request QAbsent) (Some ''key'')
               ''2025-11-10T15:30:00.000Z'' = (res, stock_calls ''key'') \<and>
            body res = Some b \<and> status res = 200 \<and>
            get_prop b ''stocks'' =
              JArr [JObj [(''ticker'', JStr ''AAPL''), (''companyName'', JStr ''Apple Inc.''),
                          (''price'', JNum (Finite 189.5))],
                    JObj [(''ticker'', JStr ''AMZN''), (''companyName'', JStr ''Amazon.com Inc.''),
                          (''price'', JNum (Finite 178))]] \<and>
            get_prop b ''warnings'' =
              JArr [JObj [(''ticker'', JStr ''MSFT''), (''companyName'', JStr ''Microsoft Corporation''),
                          (''message'', JStr ''Failed to fetch data'')],
                    JObj [(''ticker'', JStr ''GOOGL''), (''companyName'', JStr ''Alphabet Inc. (Google)''),
                          (''message'', JStr ''Failed to fetch data'')],
                    JObj [(''ticker'', JStr ''META''), (''companyName'', JStr ''Meta Platforms Inc.''),
                          (''message'', JStr ''Failed to fetch data'')]]) \<and>
   (\<exists>res b. stocks_handler failing_upstream (get_request QAbsent) (Some ''key'')
               ''2025-11-10T15:30:00.000Z'' = (res, stock_calls ''key'') \<and>
            body res = Some b \<and> status res = 503 \<and>
            get_prop b ''details'' =
              JArr [JObj [(''ticker'', JStr ''AAPL''), (''error'', JStr ''fetch failed'')],
                    JObj [(''ticker'', JStr ''MSFT''), (''error'', JStr ''fetch failed'')],
                    JObj [(''ticker'', JStr ''GOOGL''), (''error'', JStr ''fetch failed'')],
                    JObj [(''ticker'', JStr ''META''), (''error'', JStr ''fetch failed'')],
                    JObj [(''ticker'', JStr ''AMZN''), (''error'', JStr ''fetch failed'')]])"
  (is "?partial \<and> ?outage")
proof -
  have k: "''key'' \<noteq> []" and g: "req_method (get_request QAbsent) = ''GET''"
    by (simp_all add: get_request_def)
  have partial: ?partial
    using stocks_decision_rule [OF k g, of example_upstream "''2025-11-10T15:30:00.000Z''"]
    by (auto simp: example_stock_results stock_entry_def warning_entry_def)
  have outage: ?outage
    using stocks_decision_rule [OF k g, of failing_upstream "''2025-11-10T15:30:00.000Z''"]
    by (auto simp: failing_stock_results eval_defs failing_upstream_def)
  from partial outage show ?thesis by simp
qed

section \<open>The stocks handler: metadata\<close>

lemma js_nat_eq: "(js_nat a = js_nat b) = (a = b)"
  by (simp add: js_nat_def)

text \<open>
  C3. For a GET request, whatever the upstream calls do and whatever the key: in a response
  with status 200, \<^verbatim>\<open>metadata.total\<close> is the number of tickers of \<^verbatim>\<open>COMPANIES\<close>, which is 5,
  \<^verbatim>\<open>metadata.successful + metadata.failed\<close> is \<^verbatim>\<open>metadata.total\<close>, and \<^verbatim>\<open>stocks\<close> is an array
  of \<^verbatim>\<open>metadata.successful\<close> entries.
\<close>

theorem stocks_metadata_counts:
  assumes "req_method rq = ''GET''"
    and "stocks_handler up rq env_API_KEY now = (res, calls)"
    and "status res = 200"
  shows "\<exists>b xs s f. body res = Some b \<and>
           get_prop (get_prop b ''metadata'') ''total'' = js_nat (length (object_keys COMPANIES)) \<and>
           length (object_keys COMPANIES) = 5 \<and>
           get_prop (get_prop b ''metadata'') ''successful'' = js_nat s \<and>
           get_prop (get_prop b ''metadata'') ''failed'' = js_nat f \<and>
           s + f = length (object_keys COMPANIES) \<and>
           get_prop b ''stocks'' = JArr xs \<and> length xs = s"
proof (cases "\<exists>apiKey. env_API_KEY = Some apiKey \<and> apiKey \<noteq> []")
  case False
  then have "stocks_try (fetchStockPrice up) env_API_KEY now = (Inr configuration_error, [])"
    by (auto simp: stocks_try_def split: option.splits)
  with assms have "res = configuration_error"
    by (simp add: stocks_handler_def stocks_handler_with_def)
  with assms(3) show ?thesis
    by (simp add: configuration_error_def json_response_def)
next
  case True
  then obtain apiKey where key: "env_API_KEY = Some apiKey" "apiKey \<noteq> []" by blast
  let ?rs = "stock_results up apiKey"
  from assms(2) key have res: "res = stocks_respond (object_keys COMPANIES) ?rs now"
    by (simp add: stocks_handler_GET [OF key(2) assms(1)])
  have some: "\<exists>r\<in>set ?rs. success r"
  proof (rule ccontr)
    assume "\<not> ?thesis"
    then have "\<forall>r\<in>set ?rs. \<not> success r" by blast
    with res assms(3) show False
      by (simp add: stocks_respond_all_failed json_response_def)
  qed
  have "length (filter (\<lambda>r. success r) ?rs) + length (filter (\<lambda>r. \<not> success r) ?rs) =
          length (object_keys COMPANIES)"
    using sum_length_filter_compl [of "\<lambda>r. success r" ?rs]
    by (simp add: stock_results_def)
  moreover have "length (object_keys COMPANIES) = 5"
    by (simp add: object_keys_def COMPANIES_def)
  ultimately show ?thesis
    using res some by (simp add: stocks_respond_some_succeeded json_response_def js_nat_eq)
qed

theorem stocks_metadata_counts_witness:
  "\<exists>res b. stocks_handler example_upstream (get_request QAbsent) (Some ''key'')
              ''2025-11-10T15:30:00.000Z'' = (res, stock_calls ''key'') \<and>
     status res = 200 \<and> body res = Some b \<and>
     get_prop b ''metadata'' =
       JObj [(''total'', js_nat 5), (''successful'', js_nat 2), (''failed'', js_nat 3)] \<and>
     (\<exists>xs. get_prop b ''stocks'' = JArr xs \<and> length xs = 2)"
proof -
  have g: "req_method (get_request QAbsent) = ''GET''"
    by (simp add: get_request_def)
  have run: "stocks_handler example_upstream (get_request QAbsent) (Some ''key'')
               ''2025-11-10T15:30:00.000Z'' =
             (stocks_respond (object_keys COMPANIES) (stock_results example_upstream ''key'')
                ''2025-11-10T15:30:00.000Z'', stock_calls ''key'')"
    by (simp add: stocks_handler_GET [OF _ g])
  have ok: "status (stocks_respond (object_keys COMPANIES) (stock_results example_upstream ''key'')
                ''2025-11-10T15:30:00.000Z'') = 200"
    by (simp add: example_stock_results stocks_respond_def json_response_def)
  from stocks_metadata_counts [OF g run ok] show ?thesis
    using run by (auto simp: example_stock_results stocks_respond_def json_response_def
        object_keys_def COMPANIES_def js_nat_eq)
qed

section \<open>The stocks handler: order\<close>

lemma filter_stock_results:
  "map (\<lambda>r. JStr (ticker r)) (filter P (stock_results up apiKey)) =
     map JStr (filter (\<lambda>tkr. P (stock_result up apiKey tkr)) (object_keys COMPANIES))"
  by (simp add: stock_results_def filter_map comp_def stock_result_ticker)

text \<open>
  C9. The stocks handler keeps the order AAPL, MSFT, GOOGL, META, AMZN: for a GET request with
  the key configured, the tickers of \<^verbatim>\<open>stocks\<close> in a 200 response are the tickers whose call
  succeeded, in that order, and the tickers of \<^verbatim>\<open>warnings\<close> (200; none when the property is
  missing) and of \<^verbatim>\<open>details\<close> (503) are the tickers whose call failed, in that order.
\<close>

theorem stocks_order_preserved:
  assumes "apiKey \<noteq> []" and "req_method rq = ''GET''"
    and "stocks_handler up rq (Some apiKey) now = (res, calls)"
  shows "\<exists>b. body res = Some b \<and>
           (status res = 200 \<and>
              entry_tickers (get_prop b ''stocks'') =
                map JStr (filter (\<lambda>tkr. success (stock_result up apiKey tkr))
                           [''AAPL'', ''MSFT'', ''GOOGL'', ''META'', ''AMZN'']) \<and>
              entry_tickers (get_prop b ''warnings'') =
                map JStr (filter (\<lambda>tkr. \<not> success (stock_result up apiKey tkr))
                           [''AAPL'', ''MSFT'', ''GOOGL'', ''META'', ''AMZN''])
            \<or> status res = 503 \<and>
              entry_tickers (get_prop b ''details'') =
                map JStr (filter (\<lambda>tkr. \<not> success (stock_result up apiKey tkr))
                           [''AAPL'', ''MSFT'', ''GOOGL'', ''META'', ''AMZN'']))"
proof -
  let ?rs = "stock_results up apiKey"
  have keys: "[''AAPL'', ''MSFT'', ''GOOGL'', ''META'', ''AMZN''] = object_keys COMPANIES"
    by (simp add: object_keys_def COMPANIES_def)
  from assms have res: "res = stocks_respond (object_keys COMPANIES) ?rs now"
    by (simp add: stocks_handler_GET)
  have ok: "map (\<lambda>e. get_prop e ''ticker'') (map stock_entry (filter (\<lambda>r. success r) ?rs)) =
              map JStr (filter (\<lambda>tkr. success (stock_result up apiKey tkr)) (object_keys COMPANIES))"
    using filter_stock_results [of "\<lambda>r. success r" up apiKey]
    by (simp add: stock_entry_def comp_def)
  have warn: "map (\<lambda>e. get_prop e ''ticker'') (map warning_entry (filter (\<lambda>r. \<not> success r) ?rs)) =
              map JStr (filter (\<lambda>tkr. \<not> success (stock_result up apiKey tkr)) (object_keys COMPANIES))"
    using filter_stock_results [of "\<lambda>r. \<not> success r" up apiKey]
    by (simp add: warning_entry_def comp_def)
  have det: "map (\<lambda>e. get_prop e ''ticker'') (map detail_entry (filter (\<lambda>r. \<not> success r) ?rs)) =
              map JStr (filter (\<lambda>tkr. \<not> success (stock_result up apiKey tkr)) (object_keys COMPANIES))"
    using filter_stock_results [of "\<lambda>r. \<not> success r" up apiKey]
    by (simp add: detail_entry_def comp_def)
  show ?thesis
  proof (cases "\<exists>r\<in>set ?rs. success r")
    case True
    show ?thesis
    proof (cases "\<exists>r\<in>set ?rs. \<not> success r")
      case some_failed: True
      with True res ok warn show ?thesis
        by (simp add: keys stocks_respond_some_succeeded json_response_def)
    next
      case False
      then have "filter (\<lambda>tkr. \<not> success (stock_result up apiKey tkr)) (object_keys COMPANIES) = []"
        by (simp add: stock_results_def filter_empty_conv)
      with True False res ok show ?thesis
        by (simp add: keys stocks_respond_some_succeeded json_response_def)
    qed
  next
    case False
    then have all: "\<forall>r\<in>set ?rs. \<not> success r" by blast
    then have "filter (\<lambda>r. \<not> success r) ?rs = ?rs" by simp
    with det have "map (\<lambda>e. get_prop e ''ticker'') (map detail_entry ?rs) =
              map JStr (filter (\<lambda>tkr. \<not> success (stock_result up apiKey tkr)) (object_keys COMPANIES))"
      by simp
    with all res show ?thesis
      by (simp add: keys stocks_respond_all_failed json_response_def)
  qed
qed

theorem stocks_order_preserved_witness:
  "\<exists>res b. stocks_handler example_upstream (get_request QAbsent) (Some ''key'')
              ''2025-11-10T15:30:00.000Z'' = (res, stock_calls ''key'') \<and>
     body res = Some b \<and> status res = 200 \<and>
     entry_tickers (get_prop b ''stocks'') = [JStr ''AAPL'', JStr ''AMZN''] \<and>
     entry_tickers (get_prop b ''warnings'') = [JStr ''MSFT'', JStr ''GOOGL'', JStr ''META'']"
proof -
  have k: "''key'' \<noteq> []" and g: "req_method (get_request QAbsent) = ''GET''"
    by (simp_all add: get_request_def)
  have run: "stocks_handler example_upstream (get_request QAbsent) (Some ''key'')
               ''2025-11-10T15:30:00.000Z'' =
             (stocks_respond (object_keys COMPANIES) (stock_results example_upstream ''key'')
                ''2025-11-10T15:30:00.000Z'', stock_calls ''key'')"
    by (simp add: stocks_handler_GET [OF k g])
  have st: "status (stocks_respond (object_keys COMPANIES) (stock_results example_upstream ''key'')
                ''2025-11-10T15:30:00.000Z'') = 200"
    by (simp add: example_stock_results stocks_respond_def json_response_def)
  have succ: "map (\<lambda>tkr. success (stock_result example_upstream ''key'' tkr))
                [''AAPL'', ''MSFT'', ''GOOGL'', ''META'', ''AMZN''] = [True, False, False, False, True]"
    using example_stock_results by (simp add: stock_results_def object_keys_def COMPANIES_def)
  from stocks_order_preserved [OF k g run] st succ show ?thesis
    using run by auto
qed

section \<open>Both handlers: missing configuration\<close>

lemma stocks_try_no_key:
  "key_absent env_API_KEY \<Longrightarrow> stocks_try client env_API_KEY now = (Inr configuration_error, [])"
  by (simp add: key_absent_def stocks_try_def split: option.splits)

lemma transcripts_try_no_key:
  "key_absent env_API_KEY \<Longrightarrow>
     transcripts_try toUpperCase client rq env_API_KEY = (Inr configuration_error, [])"
  by (simp add: key_absent_def transcripts_try_def split: option.splits)

text \<open>
  C4, as stated, fails: with no key configured, a POST request (a method that is not OPTIONS) is
  answered by both handlers with 405, not 500, because the method is checked before the key.
\<close>

theorem missing_key_POST_counterexample:
  "key_absent None \<and> req_method post_request \<noteq> ''OPTIONS'' \<and>
   stocks_handler failing_upstream post_request None ''2025-11-10T15:30:00.000Z'' =
     (method_not_allowed, []) \<and>
   transcripts_handler toUpperCase_sample failing_upstream post_request None =
     (method_not_allowed, []) \<and>
   status method_not_allowed = 405"
  by (simp add: key_absent_def post_request_def stocks_handler_def stocks_handler_with_def
      transcripts_handler_def transcripts_handler_with_def method_not_allowed_def json_response_def)

text \<open>
  C4, amended. With the key absent (unset or empty), both handlers answer every GET request with
  status 500 and the configuration-error payload; they answer a request whose method is neither
  GET nor OPTIONS with 405; and whatever the method and whatever the client, no upstream call is
  made (the client is not called).
\<close>

theorem missing_key_configuration_error:
  assumes "key_absent env_API_KEY"
  shows "(req_method rq = ''GET'' \<longrightarrow>
            stocks_handler_with client rq env_API_KEY now = (configuration_error, []) \<and>
            transcripts_handler_with toUpperCase client' rq env_API_KEY =
              (configuration_error, [])) \<and>
         (req_method rq \<noteq> ''GET'' \<and> req_method rq \<noteq> ''OPTIONS'' \<longrightarrow>
            stocks_handler_with client rq env_API_KEY now = (method_not_allowed, []) \<and>
            transcripts_handler_with toUpperCase client' rq env_API_KEY =
              (method_not_allowed, [])) \<and>
         snd (stocks_handler_with client rq env_API_KEY now) = [] \<and>
         snd (transcripts_handler_with toUpperCase client' rq env_API_KEY) = [] \<and>
         status configuration_error = 500 \<and>
         body configuration_error =
           Some (JObj [(''error'', JStr ''Server configuration error''),
                       (''message'',
                        JStr ''API key not configured. Please set API_KEY environment variable.'')])"
  using assms
  by (simp add: stocks_handler_with_def transcripts_handler_with_def stocks_try_no_key
      transcripts_try_no_key configuration_error_def json_response_def)

text \<open>
  C4, amended, on the deployed handlers: GET with no key, GET with an empty key, POST with no key.
\<close>

theorem missing_key_configuration_error_witness:
  "key_absent None \<and> key_absent (Some '''') \<and>
   stocks_handler example_upstream (get_request QAbsent) None ''2025-11-10T15:30:00.000Z'' =
     (configuration_error, []) \<and>
   transcripts_handler toUpperCase_sample example_upstream (get_request (QString ''MSFT''))
       (Some '''') =
     (configuration_error, []) \<and>
   stocks_handler example_upstream post_request None ''2025-11-10T15:30:00.000Z'' =
     (method_not_allowed, [])"
proof -
  have a: "key_absent None" and b: "key_absent (Some '''')"
    by (simp_all add: key_absent_def)
  have g: "req_method (get_request q) = ''GET''" for q
    by (simp add: get_request_def)
  have p: "req_method post_request \<noteq> ''GET'' \<and> req_method post_request \<noteq> ''OPTIONS''"
    by (simp add: post_request_def)
  from missing_key_configuration_error [OF a, where rq = "get_request QAbsent"
      and client = "fetchStockPrice example_upstream" and now = "''2025-11-10T15:30:00.000Z''"
      and client' = "fetchEarningsTranscript example_upstream" and toUpperCase = toUpperCase_sample]
    missing_key_configuration_error [OF b, where rq = "get_request (QString ''MSFT'')"
      and client = "fetchStockPrice example_upstream" and now = "''2025-11-10T15:30:00.000Z''"
      and client' = "fetchEarningsTranscript example_upstream" and toUpperCase = toUpperCase_sample]
    missing_key_configuration_error [OF a, where rq = post_request
      and client = "fetchStockPrice example_upstream" and now = "''2025-11-10T15:30:00.000Z''"
      and client' = "fetchEarningsTranscript example_upstream" and toUpperCase = toUpperCase_sample]
  show ?thesis
    using a b g p by (simp add: stocks_handler_def transcripts_handler_def)
qed

section \<open>Both handlers: unexpected errors\<close>

text \<open>
  Where the \<^verbatim>\<open>try\<close> blocks can throw with the deployed clients: the stocks handler's never
  does, and the transcripts handler's does only when the \<^verbatim>\<open>ticker\<close> parameter is repeated.
\<close>

lemma stocks_try_deployed_settles:
  "\<exists>res calls. stocks_try (fetchStockPrice up) env_API_KEY now = (Inr res, calls)"
proof (cases "key_absent env_API_KEY")
  case True
  then show ?thesis by (simp add: stocks_try_no_key)
next
  case False
  then obtain apiKey where "env_API_KEY = Some apiKey" "apiKey \<noteq> []"
    by (auto simp: key_absent_def split: option.splits)
  then show ?thesis by (simp add: stocks_try_deployed)
qed

lemma transcripts_try_deployed_throws:
  assumes "transcripts_try toUpperCase (fetchEarningsTranscript up) rq env_API_KEY = (Inl e, calls)"
  shows "\<exists>ts. query_ticker rq = QArray ts"
  using assms
  by (auto simp: transcripts_try_def fetchEarningsTranscript_def Let_def
      split: option.splits qparam.splits if_splits)

text \<open>
  C5, as stated, fails: a GET to the transcripts handler with the \<^verbatim>\<open>ticker\<close> parameter repeated
  makes \<^verbatim>\<open>ticker.toUpperCase()\<close> throw, and the 500 response carries the message of that error
  in its \<^verbatim>\<open>details\<close> property.
\<close>

theorem internal_error_details_counterexample:
  "transcripts_handler toUpperCase_sample example_upstream
       (get_request (QArray [''MSFT'', ''AAPL''])) (Some ''key'') =
     (\<lparr>status = 500, headers = cors_headers,
       body = Some (JObj [(''error'', JStr ''Internal server error''),
                          (''message'',
                           JStr ''An unexpected error occurred while fetching transcript data''),
                          (''details'', JStr ''ticker.toUpperCase is not a function'')])\<rparr>, [])"
  by (simp add: transcripts_handler_def transcripts_handler_with_def transcripts_try_def
      get_request_def internal_error_def json_response_def)

text \<open>
  C5, amended. For both handlers and a GET request, a value thrown inside the \<^verbatim>\<open>try\<close> block is
  caught and answered with status 500 and a payload made of the fixed \<^verbatim>\<open>error\<close> and
  \<^verbatim>\<open>message\<close> texts and of \<^verbatim>\<open>details\<close>, the message of the thrown error (not its stack).
\<close>

theorem unexpected_error_response:
  assumes "req_method rq = ''GET''"
  shows "(stocks_try client env_API_KEY now = (Inl e, calls) \<longrightarrow>
            stocks_handler_with client rq env_API_KEY now =
              (\<lparr>status = 500, headers = cors_headers,
                body = Some (JObj [(''error'', JStr ''Internal server error''),
                                   (''message'',
                                    JStr ''An unexpected error occurred while fetching stock data''),
                                   (''details'', JStr (message e))])\<rparr>, calls)) \<and>
         (transcripts_try toUpperCase client' rq env_API_KEY = (Inl e', calls') \<longrightarrow>
            transcripts_handler_with toUpperCase client' rq env_API_KEY =
              (\<lparr>status = 500, headers = cors_headers,
                body = Some (JObj [(''error'', JStr ''Internal server error''),
                                   (''message'',
                                    JStr ''An unexpected error occurred while fetching transcript data''),
                                   (''details'', JStr (message e'))])\<rparr>, calls'))"
  using assms
  by (simp add: stocks_handler_with_def transcripts_handler_with_def internal_error_def
      json_response_def)

text \<open>
  C5, amended, on a client that rejects (stocks) and on a repeated \<^verbatim>\<open>ticker\<close> parameter
  (transcripts).
\<close>

theorem unexpected_error_response_witness:
  "stocks_try rejecting_client (Some ''key'') ''2025-11-10T15:30:00.000Z'' = (Inl (Error ''boom''), []) \<and>
   stocks_handler_with rejecting_client (get_request (QArray [''MSFT'', ''AAPL''])) (Some ''key'')
       ''2025-11-10T15:30:00.000Z'' =
     (\<lparr>status = 500, headers = cors_headers,
       body = Some (JObj [(''error'', JStr ''Internal server error''),
                          (''message'', JStr ''An unexpected error occurred while fetching stock data''),
                          (''details'', JStr ''boom'')])\<rparr>, []) \<and>
   transcripts_try toUpperCase_sample (fetchEarningsTranscript example_upstream)
       (get_request (QArray [''MSFT'', ''AAPL''])) (Some ''key'') =
     (Inl (TypeError ''ticker.toUpperCase is not a function''), []) \<and>
   status (fst (transcripts_handler_with toUpperCase_sample (fetchEarningsTranscript example_upstream)
                  (get_request (QArray [''MSFT'', ''AAPL''])) (Some ''key''))) = 500"
proof -
  have g: "req_method (get_request q) = ''GET''" for q
    by (simp add: get_request_def)
  have s: "stocks_try rejecting_client (Some ''key'') ''2025-11-10T15:30:00.000Z'' =
             (Inl (Error ''boom''), [])"
    by (simp add: stocks_try_def rejecting_client_def object_keys_def COMPANIES_def)
  have t: "transcripts_try toUpperCase_sample (fetchEarningsTranscript example_upstream)
             (get_request (QArray [''MSFT'', ''AAPL''])) (Some ''key'') =
             (Inl (TypeError ''ticker.toUpperCase is not a function''), [])"
    by (simp add: transcripts_try_def get_request_def)
  from unexpected_error_response [where rq = "get_request (QArray [''MSFT'', ''AAPL''])"
      and client = rejecting_client and env_API_KEY = "Some ''key''"
      and now = "''2025-11-10T15:30:00.000Z''" and e = "Error ''boom''" and calls = "[]"
      and client' = "fetchEarningsTranscript example_upstream"
      and toUpperCase = toUpperCase_sample
      and e' = "TypeError ''ticker.toUpperCase is not a function''" and calls' = "[]", OF g]
  show ?thesis using s t by simp
qed

section \<open>The transcripts handler: validation of the ticker\<close>

lemma supported_ticker:
  "truthy (company_name tkr) = (tkr \<in> set [''AAPL'', ''MSFT'', ''GOOGL'', ''META'', ''AMZN''])"
  by (simp add: company_name_def COMPANIES_def)

lemma transcripts_try_string:
  assumes "apiKey \<noteq> []" and "tkr \<noteq> []" and "query_ticker rq = QString tkr"
  shows "transcripts_try toUpperCase client rq (Some apiKey) =
           (if toUpperCase tkr \<in> set [''AAPL'', ''MSFT'', ''GOOGL'', ''META'', ''AMZN'']
            then (case client (toUpperCase tkr) apiKey of
                    (Inl e, calls) \<Rightarrow> (Inl e, calls)
                  | (Inr result, calls) \<Rightarrow>
                      if \<not> success result
                      then (Inr (transcript_unavailable (toUpperCase tkr) result), calls)
                      else (Inr (transcript_ok result), calls))
            else (Inr (invalid_ticker tkr), []))"
  using assms by (simp add: transcripts_try_def Let_def supported_ticker)

lemma toUpperCase_sample_ascii:
  "toUpperCase_sample '''' = ''''"
  "toUpperCase_sample ''xyz'' = ''XYZ''"
  "toUpperCase_sample ''msft'' = ''MSFT''"
  "toUpperCase_sample [CHR ''m'', CHR 0xC5, CHR 0xBF, CHR ''f'', CHR ''t''] = ''MSFT''"
  by (simp_all add: toUpperChar_def)

lemma toUpperCase_sample_tickers:
  "\<forall>u\<in>set [''AAPL'', ''MSFT'', ''GOOGL'', ''META'', ''AMZN'']. toUpperCase_sample u = u"
  by (simp add: toUpperChar_def)

text \<open>
  C6, as stated, fails: the empty string matches no ticker of the allow-list, and a GET with
  \<^verbatim>\<open>ticker=\<close> is answered with 200, not 400.
\<close>

theorem empty_ticker_counterexample:
  "toUpperCase_sample '''' \<notin> set [''AAPL'', ''MSFT'', ''GOOGL'', ''META'', ''AMZN''] \<and>
   status (fst (transcripts_handler toUpperCase_sample example_upstream
                  (get_request (QString '''')) (Some ''key''))) = 200"
  by (simp add: transcripts_handler_def transcripts_handler_with_def
      transcripts_try_def get_request_def discovery_def json_response_def)

text \<open>
  C6, amended. For the transcripts handler with the key configured, and whatever
  \<^verbatim>\<open>toUpperCase\<close> does: a GET request without a \<^verbatim>\<open>ticker\<close> parameter is answered with 200 and
  the discovery payload, which lists the five tickers; a GET request whose \<^verbatim>\<open>ticker\<close> is a
  non-empty string whose upper-casing is not one of the five is answered with 400, a message
  that quotes the string as supplied, and the list of the five; in both cases no upstream call
  is made, whatever the client.
\<close>

theorem transcripts_validation:
  assumes "apiKey \<noteq> []" and "req_method rq = ''GET''"
  shows "(query_ticker rq = QAbsent \<longrightarrow>
            transcripts_handler_with toUpperCase client rq (Some apiKey) =
              (\<lparr>status = 200, headers = cors_headers,
                body = Some (JObj [(''message'', JStr ''Provide a ticker parameter to fetch transcript''),
                                   (''availableTickers'',
                                    JArr [JStr ''AAPL'', JStr ''MSFT'', JStr ''GOOGL'', JStr ''META'',
                                          JStr ''AMZN'']),
                                   (''example'', JStr ''/api/transcripts?ticker=MSFT'')])\<rparr>, [])) \<and>
         (query_ticker rq = QString tkr \<and> tkr \<noteq> [] \<and>
          toUpperCase tkr \<notin> set [''AAPL'', ''MSFT'', ''GOOGL'', ''META'', ''AMZN''] \<longrightarrow>
            transcripts_handler_with toUpperCase client rq (Some apiKey) =
              (\<lparr>status = 400, headers = cors_headers,
                body = Some (JObj [(''error'', JStr ''Invalid ticker''),
                                   (''message'',
                                    JStr (''Ticker '' @ [CHR 0x27] @ tkr @ [CHR 0x27] @
                                          '' is not supported'')),
                                   (''availableTickers'',
                                    JArr [JStr ''AAPL'', JStr ''MSFT'', JStr ''GOOGL'', JStr ''META'',
                                          JStr ''AMZN''])])\<rparr>, []))"
proof -
  have keys: "object_keys COMPANIES = [''AAPL'', ''MSFT'', ''GOOGL'', ''META'', ''AMZN'']"
    by (simp add: object_keys_def COMPANIES_def)
  have "transcripts_handler_with toUpperCase client rq (Some apiKey) = (discovery, [])"
    if "query_ticker rq = QAbsent"
    using that assms by (simp add: transcripts_handler_with_def transcripts_try_def)
  moreover
  have "transcripts_handler_with toUpperCase client rq (Some apiKey) = (invalid_ticker tkr, [])"
    if "query_ticker rq = QString tkr" "tkr \<noteq> []"
      "toUpperCase tkr \<notin> set [''AAPL'', ''MSFT'', ''GOOGL'', ''META'', ''AMZN'']"
    using that assms(2)
      transcripts_try_string [OF assms(1) that(2) that(1), of toUpperCase client]
    by (simp add: transcripts_handler_with_def)
  ultimately show ?thesis
    by (simp add: discovery_def invalid_ticker_def json_response_def keys)
qed

text \<open>
  C6, amended, on the deployed handler: no parameter, and \<^verbatim>\<open>ticker=xyz\<close>.
\<close>

theorem transcripts_validation_witness:
  "transcripts_handler toUpperCase_sample example_upstream (get_request QAbsent) (Some ''key'') =
     (discovery, []) \<and>
   transcripts_handler toUpperCase_sample example_upstream (get_request (QString ''xyz''))
       (Some ''key'') =
     (\<lparr>status = 400, headers = cors_headers,
       body = Some (JObj [(''error'', JStr ''Invalid ticker''),
                          (''message'',
                           JStr (''Ticker '' @ [CHR 0x27] @ ''xyz'' @ [CHR 0x27] @
                                 '' is not supported'')),
                          (''availableTickers'',
                           JArr [JStr ''AAPL'', JStr ''MSFT'', JStr ''GOOGL'', JStr ''META'',
                                 JStr ''AMZN''])])\<rparr>, [])"
proof -
  have k: "''key'' \<noteq> []" by simp
  have ga: "req_method (get_request QAbsent) = ''GET''"
    and gx: "req_method (get_request (QString ''xyz'')) = ''GET''"
    by (simp_all add: get_request_def)
  have u: "toUpperCase_sample ''xyz'' \<notin> set [''AAPL'', ''MSFT'', ''GOOGL'', ''META'', ''AMZN'']"
    by (simp add: toUpperCase_sample_ascii)
  from transcripts_validation [OF k ga, where tkr = "''xyz''" and toUpperCase = toUpperCase_sample
      and client = "fetchEarningsTranscript example_upstream"]
    transcripts_validation [OF k gx, where tkr = "''xyz''" and toUpperCase = toUpperCase_sample
      and client = "fetchEarningsTranscript example_upstream"]
  show ?thesis
    using u by (simp add: transcripts_handler_def get_request_def discovery_def
        json_response_def object_keys_def COMPANIES_def)
qed

text \<open>
  C10. A GET to the transcripts handler with \<^verbatim>\<open>ticker=\<close> (the empty string), the key being
  configured, is answered as a request without the parameter is: status 200 and the discovery
  payload, not the 400 of an invalid ticker, and no upstream call.
\<close>

theorem empty_ticker_is_missing:
  assumes "apiKey \<noteq> []" and "req_method rq = ''GET''" and "query_ticker rq = QString []"
  shows "transcripts_handler toUpperCase up rq (Some apiKey) = (discovery, []) \<and>
         transcripts_handler toUpperCase up rq (Some apiKey) =
           transcripts_handler toUpperCase up (rq\<lparr>query_ticker := QAbsent\<rparr>) (Some apiKey) \<and>
         status (fst (transcripts_handler toUpperCase up rq (Some apiKey))) = 200 \<and>
         status (fst (transcripts_handler toUpperCase up rq (Some apiKey))) \<noteq> 400"
  using assms
  by (simp add: transcripts_handler_def transcripts_handler_with_def transcripts_try_def
      discovery_def json_response_def)

text \<open>
  C10 on the deployed handler.
\<close>

theorem empty_ticker_is_missing_witness:
  "transcripts_handler toUpperCase_sample example_upstream (get_request (QString ''''))
       (Some ''key'') =
     (discovery, []) \<and>
   status (fst (transcripts_handler toUpperCase_sample example_upstream
                  (get_request (QString '''')) (Some ''key''))) =
     200"
proof -
  have "''key'' \<noteq> []" and "req_method (get_request (QString '''')) = ''GET''"
    and "query_ticker (get_request (QString '''')) = QString []"
    by (simp_all add: get_request_def)
  from empty_ticker_is_missing [OF this, where up = example_upstream
      and toUpperCase = toUpperCase_sample]
  show ?thesis by blast
qed

section \<open>The transcripts handler: case of the ticker\<close>

lemma transcripts_try_supported:
  assumes "apiKey \<noteq> []" and "query_ticker rq = QString tkr" and "tkr \<noteq> []"
    and "toUpperCase tkr \<in> set [''AAPL'', ''MSFT'', ''GOOGL'', ''META'', ''AMZN'']"
  shows "transcripts_try toUpperCase client rq (Some apiKey) =
           (case client (toUpperCase tkr) apiKey of
              (Inl e, calls) \<Rightarrow> (Inl e, calls)
            | (Inr result, calls) \<Rightarrow>
                if \<not> success result
                then (Inr (transcript_unavailable (toUpperCase tkr) result), calls)
                else (Inr (transcript_ok result), calls))"
  using assms by (simp add: transcripts_try_string)

text \<open>
  C7. Two facts about the runtime's \<^verbatim>\<open>toUpperCase\<close> are assumed, and nothing else: it maps the
  empty string to itself, and it leaves the five tickers, which are capitals, as they are. Then
  for a ticker string whose upper-casing is one of the five tickers, the transcripts handler
  gives the same response and makes the same upstream calls as for the upper-cased string, for
  the same provider, method and key. On a GET with the key configured the one upstream call is
  for the upper-cased ticker, and the response is built from the result for it, whose
  \<^verbatim>\<open>ticker\<close> is the upper-cased ticker.
\<close>

theorem ticker_case_insensitive:
  assumes "toUpperCase [] = []"
    and "\<forall>u\<in>set [''AAPL'', ''MSFT'', ''GOOGL'', ''META'', ''AMZN'']. toUpperCase u = u"
    and "toUpperCase tkr \<in> set [''AAPL'', ''MSFT'', ''GOOGL'', ''META'', ''AMZN'']"
  shows "transcripts_handler toUpperCase up \<lparr>req_method = m, query_ticker = QString tkr\<rparr>
             env_API_KEY =
           transcripts_handler toUpperCase up
             \<lparr>req_method = m, query_ticker = QString (toUpperCase tkr)\<rparr> env_API_KEY \<and>
         (m = ''GET'' \<and> env_API_KEY = Some apiKey \<and> apiKey \<noteq> [] \<longrightarrow>
            transcripts_handler toUpperCase up \<lparr>req_method = m, query_ticker = QString tkr\<rparr>
                env_API_KEY =
              (if success (transcript_result up apiKey (toUpperCase tkr))
               then transcript_ok (transcript_result up apiKey (toUpperCase tkr))
               else transcript_unavailable (toUpperCase tkr)
                      (transcript_result up apiKey (toUpperCase tkr)),
               [api_request ''earningstranscript'' (toUpperCase tkr) apiKey]) \<and>
            ticker (transcript_result up apiKey (toUpperCase tkr)) = toUpperCase tkr)"
proof -
  let ?u = "toUpperCase tkr"
  from assms(2,3) have idem: "toUpperCase ?u = ?u"
    by blast
  from assms(1,3) have ne: "tkr \<noteq> []" "?u \<noteq> []"
    by auto
  have try_eq: "transcripts_try toUpperCase client \<lparr>req_method = mm, query_ticker = QString tkr\<rparr>
                  env_API_KEY =
                transcripts_try toUpperCase client \<lparr>req_method = mm, query_ticker = QString ?u\<rparr>
                  env_API_KEY"
    for client :: "TranscriptResult client" and mm
  proof (cases "key_absent env_API_KEY")
    case True
    then show ?thesis by (simp add: transcripts_try_no_key)
  next
    case False
    then obtain k where k: "env_API_KEY = Some k" "k \<noteq> []"
      by (auto simp: key_absent_def split: option.splits)
    from assms(3) idem
    have sup: "toUpperCase ?u \<in> set [''AAPL'', ''MSFT'', ''GOOGL'', ''META'', ''AMZN'']"
      by simp
    have q: "query_ticker \<lparr>req_method = mm, query_ticker = QString t\<rparr> = QString t" for t
      by simp
    note lower = transcripts_try_supported [where toUpperCase = toUpperCase and tkr = tkr
        and client = client and rq = "\<lparr>req_method = mm, query_ticker = QString tkr\<rparr>",
        OF k(2) q ne(1) assms(3)]
    note upper = transcripts_try_supported [where toUpperCase = toUpperCase
        and tkr = "toUpperCase tkr" and client = client
        and rq = "\<lparr>req_method = mm, query_ticker = QString (toUpperCase tkr)\<rparr>",
        OF k(2) q ne(2) sup, unfolded idem]
    show ?thesis by (simp only: k(1) lower upper)
  qed
  have same: "transcripts_handler toUpperCase up \<lparr>req_method = m, query_ticker = QString tkr\<rparr>
                env_API_KEY =
              transcripts_handler toUpperCase up \<lparr>req_method = m, query_ticker = QString ?u\<rparr>
                env_API_KEY"
    by (simp add: transcripts_handler_def transcripts_handler_with_def try_eq)
  have tk: "ticker (transcript_result up apiKey ?u) = ?u"
    by (simp add: transcript_result_def fetchEarningsTranscript_try_def
        fetchEarningsTranscript_catch_def split: sum.splits fetch_outcome.splits if_splits)
  have run: "transcripts_handler toUpperCase up \<lparr>req_method = m, query_ticker = QString tkr\<rparr>
               env_API_KEY =
              (if success (transcript_result up apiKey ?u)
               then transcript_ok (transcript_result up apiKey ?u)
               else transcript_unavailable ?u (transcript_result up apiKey ?u),
               [api_request ''earningstranscript'' ?u apiKey])"
    if "m = ''GET''" "env_API_KEY = Some apiKey" "apiKey \<noteq> []"
    using that
      transcripts_try_supported [where apiKey = apiKey and tkr = tkr
        and rq = "\<lparr>req_method = m, query_ticker = QString tkr\<rparr>"
        and toUpperCase = toUpperCase and client = "fetchEarningsTranscript up",
        OF _ _ ne(1) assms(3)]
    by (simp add: transcripts_handler_def transcripts_handler_with_def fetchEarningsTranscript_def)
  from same tk run show ?thesis by blast
qed

text \<open>
  C7 on \<^verbatim>\<open>ticker=msft\<close>, on \<^verbatim>\<open>ticker=MSFT\<close>, and on the ticker spelt with a long s (U+017F),
  which upper-cases to \<^verbatim>\<open>MSFT\<close> as well.
\<close>

theorem ticker_case_insensitive_witness:
  "toUpperCase_sample ''msft'' = ''MSFT'' \<and>
   toUpperCase_sample [CHR ''m'', CHR 0xC5, CHR 0xBF, CHR ''f'', CHR ''t''] = ''MSFT'' \<and>
   transcripts_handler toUpperCase_sample example_upstream (get_request (QString ''msft''))
       (Some ''key'') =
     transcripts_handler toUpperCase_sample example_upstream (get_request (QString ''MSFT''))
       (Some ''key'') \<and>
   transcripts_handler toUpperCase_sample example_upstream
       (get_request (QString [CHR ''m'', CHR 0xC5, CHR 0xBF, CHR ''f'', CHR ''t'']))
       (Some ''key'') =
     transcripts_handler toUpperCase_sample example_upstream (get_request (QString ''MSFT''))
       (Some ''key'') \<and>
   transcripts_handler toUpperCase_sample example_upstream (get_request (QString ''msft''))
       (Some ''key'') =
     (json_response 200
        (JObj [(''success'', JBool True),
               (''data'',
                JObj [(''ticker'', JStr ''MSFT''),
                      (''companyName'', JStr ''Microsoft Corporation''),
                      (''date'', JStr ''2025-10-29''),
                      (''timestamp'', JUndefined),
                      (''year'', JNum (Finite 2026)),
                      (''quarter'', JNum (Finite 1)),
                      (''earningsTiming'', JUndefined),
                      (''transcript'', JStr ''Good afternoon.''),
                      (''participants'', JArr []),
                      (''transcriptSplit'', JArr [])])]),
      [api_request ''earningstranscript'' ''MSFT'' ''key''])"
proof -
  let ?long = "[CHR ''m'', CHR 0xC5, CHR 0xBF, CHR ''f'', CHR ''t'']"
  note e = toUpperCase_sample_ascii(1)
  note u = toUpperCase_sample_ascii(3)
  note v = toUpperCase_sample_ascii(4)
  note f = toUpperCase_sample_tickers
  have s: "toUpperCase_sample ''msft'' \<in> set [''AAPL'', ''MSFT'', ''GOOGL'', ''META'', ''AMZN'']"
    and l: "toUpperCase_sample ?long \<in> set [''AAPL'', ''MSFT'', ''GOOGL'', ''META'', ''AMZN'']"
    by (simp_all only: u v) simp_all
  have r: "transcript_result example_upstream ''key'' ''MSFT'' =
             \<lparr>ticker = ''MSFT'', companyName = JStr ''Microsoft Corporation'', success = True,
              error = JUndefined, date = JStr ''2025-10-29'', timestamp = JUndefined,
              year = JNum (Finite 2026), quarter = JNum (Finite 1), earningsTiming = JUndefined,
              transcript = JStr ''Good afternoon.'', participants = JArr [],
              transcriptSplit = JArr []\<rparr>"
    by (simp add: transcript_result_def fetchEarningsTranscript_try_def example_upstream_def
        api_request_def response_ok_def company_name_def COMPANIES_def js_or_def)
  note run = ticker_case_insensitive [OF e f s, where up = example_upstream and m = "''GET''"
      and env_API_KEY = "Some ''key''" and apiKey = "''key''", unfolded u r]
  note run_long = ticker_case_insensitive [OF e f l, where up = example_upstream
      and m = "''GET''" and env_API_KEY = "Some ''key''" and apiKey = "''key''", unfolded v]
  from run have same: "transcripts_handler toUpperCase_sample example_upstream
        \<lparr>req_method = ''GET'', query_ticker = QString ''msft''\<rparr> (Some ''key'') =
      transcripts_handler toUpperCase_sample example_upstream
        \<lparr>req_method = ''GET'', query_ticker = QString ''MSFT''\<rparr> (Some ''key'')"
    by (rule conjunct1)
  from run_long have same_long: "transcripts_handler toUpperCase_sample example_upstream
        \<lparr>req_method = ''GET'', query_ticker = QString ?long\<rparr> (Some ''key'') =
      transcripts_handler toUpperCase_sample example_upstream
        \<lparr>req_method = ''GET'', query_ticker = QString ''MSFT''\<rparr> (Some ''key'')"
    by (rule conjunct1)
  from run [THEN conjunct2] have out: "transcripts_handler toUpperCase_sample example_upstream
        \<lparr>req_method = ''GET'', query_ticker = QString ''msft''\<rparr> (Some ''key'') =
      (transcript_ok
         \<lparr>ticker = ''MSFT'', companyName = JStr ''Microsoft Corporation'', success = True,
          error = JUndefined, date = JStr ''2025-10-29'', timestamp = JUndefined,
          year = JNum (Finite 2026), quarter = JNum (Finite 1), earningsTiming = JUndefined,
          transcript = JStr ''Good afternoon.'', participants = JArr [],
          transcriptSplit = JArr []\<rparr>,
       [api_request ''earningstranscript'' ''MSFT'' ''key''])"
    by simp
  from out have out': "transcripts_handler toUpperCase_sample example_upstream
        \<lparr>req_method = ''GET'', query_ticker = QString ''msft''\<rparr> (Some ''key'') =
     (json_response 200
        (JObj [(''success'', JBool True),
               (''data'',
                JObj [(''ticker'', JStr ''MSFT''),
                      (''companyName'', JStr ''Microsoft Corporation''),
                      (''date'', JStr ''2025-10-29''),
                      (''timestamp'', JUndefined),
                      (''year'', JNum (Finite 2026)),
                      (''quarter'', JNum (Finite 1)),
                      (''earningsTiming'', JUndefined),
                      (''transcript'', JStr ''Good afternoon.''),
                      (''participants'', JArr []),
                      (''transcriptSplit'', JArr [])])]),
      [api_request ''earningstranscript'' ''MSFT'' ''key''])"
    by (simp add: transcript_ok_def)
  from u v same same_long out' show ?thesis
    unfolding get_request_def by (intro conjI)
qed

section \<open>The transcript client: failure condition and defaults\<close>

lemma get_prop_absent: "\<not> has_prop v k \<Longrightarrow> get_prop v k = JUndefined"
  by (cases v) (simp_all add: map_of_eq_None_iff [THEN iffD2])

lemma transcript_try_success:
  assumes "up (api_request ''earningstranscript'' tkr apiKey) = Response st stText (Inr data)"
    and "response_ok st" and "truthy data" and "truthy (get_prop data ''transcript'')"
  shows "fetchEarningsTranscript_try up tkr apiKey =
           Inr \<lparr>ticker = tkr, companyName = company_name tkr, success = True, error = JUndefined,
                date = get_prop data ''date'',
                timestamp = get_prop data ''timestamp'',
                year = get_prop data ''year'',
                quarter = get_prop data ''quarter'',
                earningsTiming = get_prop data ''earnings_timing'',
                transcript = get_prop data ''transcript'',
                participants = js_or (get_prop data ''participants'') (JArr []),
                transcriptSplit = js_or (get_prop data ''transcript_split'') (JArr [])\<rparr>"
  using assms by (simp add: fetchEarningsTranscript_try_def)

text \<open>
  C8, as stated, fails: a 200 response whose body has a \<^verbatim>\<open>transcript\<close> property holding the
  empty string gives a failure result.
\<close>

theorem empty_transcript_counterexample:
  "empty_transcript_upstream (api_request ''earningstranscript'' ''MSFT'' ''key'') =
     Response 200 ''OK'' (Inr (JObj [(''transcript'', JStr '''')])) \<and>
   response_ok 200 \<and>
   has_prop (JObj [(''transcript'', JStr '''')]) ''transcript'' \<and>
   fetchEarningsTranscript empty_transcript_upstream ''MSFT'' ''key'' =
     (Inr (fetchEarningsTranscript_catch ''MSFT'' (Error ''No transcript data available for MSFT'')),
      [api_request ''earningstranscript'' ''MSFT'' ''key'']) \<and>
   \<not> success (fetchEarningsTranscript_catch ''MSFT'' (Error ''No transcript data available for MSFT''))"
  by (simp add: empty_transcript_upstream_def response_ok_def fetchEarningsTranscript_def
      transcript_result_def fetchEarningsTranscript_try_def fetchEarningsTranscript_catch_def)

text \<open>
  C8, amended. \<^verbatim>\<open>fetchEarningsTranscript\<close> gives a failure result exactly when the request is
  rejected, the response is not 2xx, the body does not parse, or the parsed body or its
  \<^verbatim>\<open>transcript\<close> is falsy (missing, \<^verbatim>\<open>null\<close>, empty, zero or false). On success the result
  carries the fields of the body, and \<^verbatim>\<open>participants\<close> and \<^verbatim>\<open>transcriptSplit\<close> are the empty
  array when the body's property is falsy, in particular when it is missing.
\<close>

theorem transcript_failure_condition:
  "(\<not> success (transcript_result up apiKey tkr)) =
     (case up (api_request ''earningstranscript'' tkr apiKey) of
        Rejected e \<Rightarrow> True
      | Response st stText bdy \<Rightarrow>
          \<not> response_ok st \<or>
          (case bdy of Inl e \<Rightarrow> True
           | Inr data \<Rightarrow> \<not> truthy data \<or> \<not> truthy (get_prop data ''transcript''))) \<and>
   (\<forall>st stText data.
      up (api_request ''earningstranscript'' tkr apiKey) = Response st stText (Inr data) \<and>
      success (transcript_result up apiKey tkr) \<longrightarrow>
        fetchEarningsTranscript up tkr apiKey =
          (Inr \<lparr>ticker = tkr, companyName = company_name tkr, success = True, error = JUndefined,
                date = get_prop data ''date'',
                timestamp = get_prop data ''timestamp'',
                year = get_prop data ''year'',
                quarter = get_prop data ''quarter'',
                earningsTiming = get_prop data ''earnings_timing'',
                transcript = get_prop data ''transcript'',
                participants =
                  (if truthy (get_prop data ''participants'')
                   then get_prop data ''participants'' else JArr []),
                transcriptSplit =
                  (if truthy (get_prop data ''transcript_split'')
                   then get_prop data ''transcript_split'' else JArr [])\<rparr>,
           [api_request ''earningstranscript'' tkr apiKey]) \<and>
        (\<not> has_prop data ''participants'' \<longrightarrow>
           participants (transcript_result up apiKey tkr) = JArr []) \<and>
        (\<not> has_prop data ''transcript_split'' \<longrightarrow>
           transcriptSplit (transcript_result up apiKey tkr) = JArr []))"
proof -
  have fails: "(\<not> success (transcript_result up apiKey tkr)) =
     (case up (api_request ''earningstranscript'' tkr apiKey) of
        Rejected e \<Rightarrow> True
      | Response st stText bdy \<Rightarrow>
          \<not> response_ok st \<or>
          (case bdy of Inl e \<Rightarrow> True
           | Inr data \<Rightarrow> \<not> truthy data \<or> \<not> truthy (get_prop data ''transcript'')))"
    by (simp add: transcript_result_def fetchEarningsTranscript_try_def
        fetchEarningsTranscript_catch_def split: fetch_outcome.splits sum.splits)
  have succeeds: "fetchEarningsTranscript up tkr apiKey =
          (Inr \<lparr>ticker = tkr, companyName = company_name tkr, success = True, error = JUndefined,
                date = get_prop data ''date'',
                timestamp = get_prop data ''timestamp'',
                year = get_prop data ''year'',
                quarter = get_prop data ''quarter'',
                earningsTiming = get_prop data ''earnings_timing'',
                transcript = get_prop data ''transcript'',
                participants =
                  (if truthy (get_prop data ''participants'')
                   then get_prop data ''participants'' else JArr []),
                transcriptSplit =
                  (if truthy (get_prop data ''transcript_split'')
                   then get_prop data ''transcript_split'' else JArr [])\<rparr>,
           [api_request ''earningstranscript'' tkr apiKey]) \<and>
        (\<not> has_prop data ''participants'' \<longrightarrow>
           participants (transcript_result up apiKey tkr) = JArr []) \<and>
        (\<not> has_prop data ''transcript_split'' \<longrightarrow>
           transcriptSplit (transcript_result up apiKey tkr) = JArr [])"
    if resp: "up (api_request ''earningstranscript'' tkr apiKey) = Response st stText (Inr data)"
      and ok: "success (transcript_result up apiKey tkr)"
    for st stText data
  proof -
    from fails ok resp have "response_ok st" "truthy data" "truthy (get_prop data ''transcript'')"
      by simp_all
    from transcript_try_success [of up tkr apiKey st stText data, OF resp this]
    show ?thesis
      by (simp add: fetchEarningsTranscript_def transcript_result_def js_or_def get_prop_absent)
  qed
  from fails succeeds show ?thesis by blast
qed

text \<open>
  C8, amended, on three providers: an empty transcript, a network error, a transcript.
\<close>

theorem transcript_failure_condition_witness:
  "\<not> success (transcript_result empty_transcript_upstream ''key'' ''MSFT'') \<and>
   \<not> success (transcript_result failing_upstream ''key'' ''MSFT'') \<and>
   fetchEarningsTranscript example_upstream ''MSFT'' ''key'' =
     (Inr \<lparr>ticker = ''MSFT'', companyName = JStr ''Microsoft Corporation'', success = True,
           error = JUndefined, date = JStr ''2025-10-29'', timestamp = JUndefined,
           year = JNum (Finite 2026), quarter = JNum (Finite 1), earningsTiming = JUndefined,
           transcript = JStr ''Good afternoon.'', participants = JArr [],
           transcriptSplit = JArr []\<rparr>,
      [api_request ''earningstranscript'' ''MSFT'' ''key''])"
proof -
  have e: "example_upstream (api_request ''earningstranscript'' ''MSFT'' ''key'') =
             Response 200 ''OK''
               (Inr (JObj [(''date'', JStr ''2025-10-29''), (''year'', JNum (Finite 2026)),
                           (''quarter'', JNum (Finite 1)), (''transcript'', JStr ''Good afternoon.'')]))"
    by (simp add: example_upstream_def api_request_def)
  note a = transcript_failure_condition [of empty_transcript_upstream "''key''" "''MSFT''", THEN conjunct1]
  note b = transcript_failure_condition [of failing_upstream "''key''" "''MSFT''", THEN conjunct1]
  note c = transcript_failure_condition [of example_upstream "''key''" "''MSFT''"]
  from c [THEN conjunct1] e have ok: "success (transcript_result example_upstream ''key'' ''MSFT'')"
    by (simp add: response_ok_def)
  from c [THEN conjunct2, rule_format, OF conjI, OF e ok]
  have "fetchEarningsTranscript example_upstream ''MSFT'' ''key'' =
     (Inr \<lparr>ticker = ''MSFT'', companyName = JStr ''Microsoft Corporation'', success = True,
           error = JUndefined, date = JStr ''2025-10-29'', timestamp = JUndefined,
           year = JNum (Finite 2026), quarter = JNum (Finite 1), earningsTiming = JUndefined,
           transcript = JStr ''Good afternoon.'', participants = JArr [],
           transcriptSplit = JArr []\<rparr>,
      [api_request ''earningstranscript'' ''MSFT'' ''key''])"
    by (simp add: company_name_def COMPANIES_def)
  moreover from a have "\<not> success (transcript_result empty_transcript_upstream ''key'' ''MSFT'')"
    by (simp add: empty_transcript_upstream_def response_ok_def)
  moreover from b have "\<not> success (transcript_result failing_upstream ''key'' ''MSFT'')"
    by (simp add: failing_upstream_def)
  ultimately show ?thesis by (intro conjI)
qed

end
